theory Spec2Isabelle
  imports Complex_Main
begin

section \<open>JavaScript numbers and array reads\<close>

text \<open>
  The repository is JavaScript. A Number is modelled as an exact real or the value NaN:
  arithmetic is exact (no rounding, no overflow to Infinity), and NaN absorbs every
  operation, as in the language. The rounding of double precision is modelled apart, for
  the interpolation, where a claim depends on it. \<open>undefined\<close> is the \<open>None\<close> of an
  option; used as an operand it converts to NaN. Reading a property of \<open>undefined\<close>
  throws a TypeError, which is the \<open>Inl\<close> of a sum.
\<close>

datatype jsnum = Num real | NaN

datatype js_error = TypeError

instantiation jsnum :: "{plus,minus,times}"
begin

fun plus_jsnum :: "jsnum \<Rightarrow> jsnum \<Rightarrow> jsnum" where
  "plus_jsnum (Num a) (Num b) = Num (a + b)"
| "plus_jsnum _ _ = NaN"

fun minus_jsnum :: "jsnum \<Rightarrow> jsnum \<Rightarrow> jsnum" where
  "minus_jsnum (Num a) (Num b) = Num (a - b)"
| "minus_jsnum _ _ = NaN"

fun times_jsnum :: "jsnum \<Rightarrow> jsnum \<Rightarrow> jsnum" where
  "times_jsnum (Num a) (Num b) = Num (a * b)"
| "times_jsnum _ _ = NaN"

instance ..

end

text \<open>\<open>Math.floor\<close> and \<open>Math.min\<close>.\<close>

fun js_floor :: "jsnum \<Rightarrow> jsnum" where
  "js_floor (Num a) = Num (of_int \<lfloor>a\<rfloor>)"
| "js_floor NaN = NaN"

fun js_min :: "jsnum \<Rightarrow> jsnum \<Rightarrow> jsnum" where
  "js_min (Num a) (Num b) = Num (min a b)"
| "js_min _ _ = NaN"

text \<open>
  \<open>xs[k]\<close> for a number \<open>k\<close>: the element when \<open>k\<close> is an integer index of the array,
  \<open>undefined\<close> otherwise (negative, fractional, past the end, NaN).
\<close>

fun js_index :: "'a list \<Rightarrow> jsnum \<Rightarrow> 'a option" where
  "js_index xs (Num k) =
     (if k = of_int \<lfloor>k\<rfloor> \<and> 0 \<le> k \<and> k < real (length xs) then Some (xs ! nat \<lfloor>k\<rfloor>) else None)"
| "js_index xs NaN = None"

text \<open>A value read from an array of numbers, used as an operand.\<close>

fun to_number :: "real option \<Rightarrow> jsnum" where
  "to_number (Some a) = Num a"
| "to_number None = NaN"

text \<open>\<open>Math.pow\<close> with a natural exponent, \<open>Math.sin\<close> and \<open>Math.cos\<close>.\<close>

fun js_pow :: "jsnum \<Rightarrow> nat \<Rightarrow> jsnum" where
  "js_pow (Num a) n = Num (a ^ n)"
| "js_pow NaN n = (if n = 0 then Num 1 else NaN)"



text \<open>
  The quotient \<open>j / n\<close> of a loop index by the loop's bound, \<open>0 \<le> j \<le> n\<close>. The only
  division by zero such a loop can make is \<open>0 / 0\<close>, which is NaN.
\<close>

definition index_fraction :: "nat \<Rightarrow> nat \<Rightarrow> jsnum" where
  "index_fraction j n = (if n = 0 then NaN else Num (real j / real n))"

text \<open>
  A counting \<open>for\<close> loop over the given index values whose body may throw: the first
  exception leaves the loop.
\<close>

fun for_loop :: "nat list \<Rightarrow> (nat \<Rightarrow> 's \<Rightarrow> js_error + 's) \<Rightarrow> 's \<Rightarrow> js_error + 's" where
  "for_loop [] body s = Inr s"
| "for_loop (i # is) body s =
     (case body i s of Inl e \<Rightarrow> Inl e | Inr s' \<Rightarrow> for_loop is body s')"

section \<open>The volatility surface (js/volatility-surface.js)\<close>

subsection \<open>interpolateSigma\<close>

text \<open>
  Bilinear interpolation on the data grid. \<open>grid[y0]\<close> and \<open>grid[y1]\<close> are read as rows;
  when one of them is \<open>undefined\<close> the column read throws. A column read outside the row
  gives \<open>undefined\<close>, and the weighted sum is then NaN.
\<close>

definition interpolateSigma ::
  "jsnum \<Rightarrow> jsnum \<Rightarrow> real list list \<Rightarrow> nat \<Rightarrow> nat \<Rightarrow> js_error + jsnum" where
  "interpolateSigma u v grid nRows nCols =
     (let gx = u * Num (real nCols - 1);
          gy = v * Num (real nRows - 1);
          x0 = js_floor gx;
          y0 = js_floor gy;
          x1 = js_min (x0 + Num 1) (Num (real nCols - 1));
          y1 = js_min (y0 + Num 1) (Num (real nRows - 1));
          fx = gx - x0;
          fy = gy - y0
      in case js_index grid y0 of
           None \<Rightarrow> Inl TypeError
         | Some row0 \<Rightarrow>
             (case js_index grid y1 of
                None \<Rightarrow> Inl TypeError
              | Some row1 \<Rightarrow>
                  (let v00 = to_number (js_index row0 x0);
                       v10 = to_number (js_index row0 x1);
                       v01 = to_number (js_index row1 x0);
                       v11 = to_number (js_index row1 x1)
                   in Inr ((Num 1 - fx) * (Num 1 - fy) * v00 +
                           fx * (Num 1 - fy) * v10 +
                           (Num 1 - fx) * fy * v01 +
                           fx * fy * v11))))"

text \<open>
  The four grid values around \<open>(u, v)\<close>, at the indices \<open>x0\<close>, \<open>x1\<close>, \<open>y0\<close>, \<open>y1\<close> the
  function computes, for a position inside the grid.
\<close>

definition cell_corners :: "real \<Rightarrow> real \<Rightarrow> real list list \<Rightarrow> nat \<Rightarrow> nat \<Rightarrow> real list" where
  "cell_corners u v grid nRows nCols =
     (let x0 = nat \<lfloor>u * (real nCols - 1)\<rfloor>;
          y0 = nat \<lfloor>v * (real nRows - 1)\<rfloor>;
          x1 = min (x0 + 1) (nCols - 1);
          y1 = min (y0 + 1) (nRows - 1)
      in [grid ! y0 ! x0, grid ! y0 ! x1, grid ! y1 ! x0, grid ! y1 ! x1])"


text \<open>The data model's invariant: \<open>nRows\<close> rows of \<open>nCols\<close> values each.\<close>

definition rectangular :: "real list list \<Rightarrow> nat \<Rightarrow> nat \<Rightarrow> bool" where
  "rectangular grid nRows nCols = (length grid = nRows \<and> list_all (\<lambda>row. length row = nCols) grid)"

subsection \<open>interpolateSigma in double precision\<close>

text \<open>
  The numbers of the language are IEEE 754 binary64. Where a claim is about the exact value
  a computation returns, the rounding matters: this is the function again with every
  operation rounded to the nearest double, ties to the even significand. The rounding of a
  real: to 53 significant bits, and to multiples of \<open>2^-1074\<close> below \<open>2^-1022\<close>; overflow to
  Infinity is not represented, so the model is that of results below \<open>2^1024\<close>.
\<close>

definition round_half_even :: "real \<Rightarrow> int" where
  "round_half_even y =
     (let k = \<lfloor>y\<rfloor>; r = y - of_int k
      in if r < 1 / 2 then k else if 1 / 2 < r then k + 1 else if even k then k else k + 1)"

definition f64_round :: "real \<Rightarrow> real" where
  "f64_round x =
     (if x = 0 then 0
      else let e = max \<lfloor>log 2 \<bar>x\<bar>\<rfloor> (- 1022) - 52
           in of_int (round_half_even (x / 2 powi e)) * 2 powi e)"

text \<open>The rounded operations \<open>+\<close>, \<open>-\<close> and \<open>*\<close>.\<close>

fun f64 :: "jsnum \<Rightarrow> jsnum" where
  "f64 (Num a) = Num (f64_round a)"
| "f64 NaN = NaN"

definition add64 :: "jsnum \<Rightarrow> jsnum \<Rightarrow> jsnum" where
  "add64 a b = f64 (a + b)"

definition sub64 :: "jsnum \<Rightarrow> jsnum \<Rightarrow> jsnum" where
  "sub64 a b = f64 (a - b)"

definition mul64 :: "jsnum \<Rightarrow> jsnum \<Rightarrow> jsnum" where
  "mul64 a b = f64 (a * b)"

text \<open>
  \<open>interpolateSigma\<close> with rounded operations, for arguments and grid values that are
  doubles. Multiplication and addition associate to the left, as in the source.
\<close>

definition interpolateSigma_f64 ::
  "jsnum \<Rightarrow> jsnum \<Rightarrow> real list list \<Rightarrow> nat \<Rightarrow> nat \<Rightarrow> js_error + jsnum" where
  "interpolateSigma_f64 u v grid nRows nCols =
     (let gx = mul64 u (sub64 (Num (real nCols)) (Num 1));
          gy = mul64 v (sub64 (Num (real nRows)) (Num 1));
          x0 = js_floor gx;
          y0 = js_floor gy;
          x1 = js_min (add64 x0 (Num 1)) (sub64 (Num (real nCols)) (Num 1));
          y1 = js_min (add64 y0 (Num 1)) (sub64 (Num (real nRows)) (Num 1));
          fx = sub64 gx x0;
          fy = sub64 gy y0
      in case js_index grid y0 of
           None \<Rightarrow> Inl TypeError
         | Some row0 \<Rightarrow>
             (case js_index grid y1 of
                None \<Rightarrow> Inl TypeError
              | Some row1 \<Rightarrow>
                  (let v00 = to_number (js_index row0 x0);
                       v10 = to_number (js_index row0 x1);
                       v01 = to_number (js_index row1 x0);
                       v11 = to_number (js_index row1 x1)
                   in Inr (add64
                            (add64
                              (add64 (mul64 (mul64 (sub64 (Num 1) fx) (sub64 (Num 1) fy)) v00)
                                     (mul64 (mul64 fx (sub64 (Num 1) fy)) v10))
                              (mul64 (mul64 (sub64 (Num 1) fx) fy) v01))
                            (mul64 (mul64 fx fy) v11)))))"


subsection \<open>Configuration and data\<close>

text \<open>
  The fields of \<open>this.config\<close> that the geometry and the animation read. The constructor
  sets the render grid to 20 x 12 on a narrow window and 40 x 24 otherwise.
\<close>

record config =
  renderGrid_x :: nat
  renderGrid_y :: nat
  rotation_x :: real
  rotation_y :: real
  waveSpeed :: real
  waveAmplitude :: real
  scaleX :: real
  scaleY :: real
  scaleZ :: real

definition default_config :: "bool \<Rightarrow> config" where
  "default_config isMobile =
     \<lparr>renderGrid_x = (if isMobile then 20 else 40),
      renderGrid_y = (if isMobile then 12 else 24),
      rotation_x = 0.0002, rotation_y = 0.0003,
      waveSpeed = 0.0008, waveAmplitude = 0.15,
      scaleX = 12, scaleY = 10, scaleZ = 20\<rparr>"

text \<open>
  The surface asset, typed by its schema \<open>{metadata: {title}, surface: {grid: number[][]}}\<close>.
  The grid may still be empty or ragged.
\<close>

record surface_data =
  metadata_title :: string
  surface_grid :: "real list list"

text \<open>
  What \<open>fetch(url)\<close> followed by \<open>response.json()\<close> gives: a rejection of either promise
  (network failure, a body that is not JSON), or the parsed document, which is \<open>null\<close>
  (\<open>None\<close>) or a document of the asset's schema.
\<close>

datatype 'a fetch_result = FetchFailed | FetchJson "'a option"

datatype console_entry = ConsoleLog string | ConsoleWarn string | ConsoleError string


subsection \<open>createSurface\<close>

text \<open>
  The arrays \<open>createSurface\<close> fills: the flat vertex array (three numbers a vertex, in the
  order x, height, y), the index array of the line segments, and \<open>this.baseHeights\<close>.
\<close>

record mesh =
  mesh_vertices :: "jsnum list"
  mesh_indices :: "nat list"
  mesh_baseHeights :: "jsnum list"

text \<open>The synthetic fallback height of the \<open>else\<close> branch.\<close>

definition synthetic_height :: "jsnum \<Rightarrow> jsnum \<Rightarrow> jsnum" where
  "synthetic_height u v =
     (let smile = js_pow ((u - Num 0.5) * Num 2) 2 * Num 1.5;
          term = v * Num 0.5
      in (smile + term) * Num 2)"

text \<open>The height \<open>z\<close> of one vertex: interpolated when there is a grid, synthetic otherwise.\<close>

definition vertex_height ::
  "config \<Rightarrow> real list list option \<Rightarrow> nat \<Rightarrow> nat \<Rightarrow> jsnum \<Rightarrow> jsnum \<Rightarrow> js_error + jsnum" where
  "vertex_height cfg grid nRows nCols u v =
     (case grid of
        Some g \<Rightarrow>
          (case interpolateSigma u v g nRows nCols of
             Inl e \<Rightarrow> Inl e
           | Inr sigma \<Rightarrow> Inr (sigma * Num (scaleZ cfg)))
      | None \<Rightarrow> Inr (synthetic_height u v))"

text \<open>The body of the vertex loops, for row \<open>i\<close> and column \<open>j\<close> of the render grid.\<close>

definition push_vertex ::
  "config \<Rightarrow> real list list option \<Rightarrow> nat \<Rightarrow> nat \<Rightarrow> nat \<Rightarrow> nat \<Rightarrow> mesh \<Rightarrow> js_error + mesh" where
  "push_vertex cfg grid nRows nCols i j m =
     (let u = index_fraction j (renderGrid_x cfg);
          v = index_fraction i (renderGrid_y cfg);
          x = (u - Num 0.5) * Num (scaleX cfg);
          y = (v - Num 0.5) * Num (scaleY cfg)
      in case vertex_height cfg grid nRows nCols u v of
           Inl e \<Rightarrow> Inl e
         | Inr z \<Rightarrow>
             Inr (m\<lparr>mesh_baseHeights := mesh_baseHeights m @ [z],
                    mesh_vertices := mesh_vertices m @ [x, z, y]\<rparr>))"

text \<open>The body of the index loops: a segment down and a segment right from vertex \<open>a\<close>.\<close>

definition push_cell :: "nat \<Rightarrow> nat \<Rightarrow> nat \<Rightarrow> nat list \<Rightarrow> nat list" where
  "push_cell gridX i j ixs =
     (let a = i * (gridX + 1) + j;
          b = a + gridX + 1
      in (ixs @ [a, b]) @ [a, a + 1])"

definition wireframe_indices :: "nat \<Rightarrow> nat \<Rightarrow> nat list" where
  "wireframe_indices gridX gridY =
     fold (\<lambda>i ixs. fold (\<lambda>j ixs. push_cell gridX i j ixs) [0..<gridX] ixs) [0..<gridY] []"

text \<open>
  \<open>createSurface\<close>, as far as the mesh goes. \<open>grid[0].length\<close> throws on an empty grid.
  The scene objects built around the arrays and the call of \<open>createAxes\<close>, which adds lines
  and labels to the group and writes none of the three arrays, are left out.
\<close>

definition createSurface :: "config \<Rightarrow> surface_data option \<Rightarrow> js_error + mesh" where
  "createSurface cfg surfaceData =
     (let gridX = renderGrid_x cfg;
          gridY = renderGrid_y cfg;
          grid = (case surfaceData of Some d \<Rightarrow> Some (surface_grid d) | None \<Rightarrow> None)
      in case (case grid of
                 None \<Rightarrow> Inr (0, 0)
               | Some g \<Rightarrow> (case g of [] \<Rightarrow> Inl TypeError | row # _ \<Rightarrow> Inr (length g, length row))) of
           Inl e \<Rightarrow> Inl e
         | Inr (nRows, nCols) \<Rightarrow>
             (case for_loop [0..<Suc gridY]
                     (\<lambda>i. for_loop [0..<Suc gridX] (\<lambda>j. push_vertex cfg grid nRows nCols i j))
                     \<lparr>mesh_vertices = [], mesh_indices = [], mesh_baseHeights = []\<rparr> of
                Inl e \<Rightarrow> Inl e
              | Inr m \<Rightarrow> Inr (m\<lparr>mesh_indices := wireframe_indices gridX gridY\<rparr>)))"


text \<open>There is no dataset, or its grid has at least one row.\<close>

definition has_rows :: "surface_data option \<Rightarrow> bool" where
  "has_rows surfaceData = (case surfaceData of None \<Rightarrow> True | Some d \<Rightarrow> surface_grid d \<noteq> [])"

subsection \<open>The heights createSurface is expected to store\<close>

text \<open>Applying a function that may throw to each element in turn; the first exception wins.\<close>

fun traverse :: "('a \<Rightarrow> js_error + 'b) \<Rightarrow> 'a list \<Rightarrow> js_error + 'b list" where
  "traverse f [] = Inr []"
| "traverse f (x # xs) =
     (case f x of
        Inl e \<Rightarrow> Inl e
      | Inr y \<Rightarrow> (case traverse f xs of Inl e \<Rightarrow> Inl e | Inr ys \<Rightarrow> Inr (y # ys)))"







subsection \<open>animate\<close>









section \<open>The charts (js/project-visualizations.js)\<close>

subsection \<open>Strings and numbers\<close>

text \<open>\<open>Math.max\<close>.\<close>

fun js_max :: "jsnum \<Rightarrow> jsnum \<Rightarrow> jsnum" where
  "js_max (Num a) (Num b) = Num (max a b)"
| "js_max _ _ = NaN"

text \<open>
  A string built at run time, in pieces: literal text, the default string form of a number
  (which is not modelled further), and a character outside ASCII by its code point.
\<close>

datatype piece = Lit string | NumStr jsnum | CodePoint nat

text \<open>The decimal digits of a natural number.\<close>

fun digits :: "nat \<Rightarrow> string" where
  "digits n = (if n < 10 then [''0123456789'' ! n] else digits (n div 10) @ [''0123456789'' ! (n mod 10)])"

text \<open>
  \<open>x.toFixed(f)\<close>: the integer \<open>n\<close> nearest to \<open>x * 10^f\<close> (the larger one on a tie,
  taken on the absolute value), written with \<open>f\<close> digits after the point and a sign for
  a negative \<open>x\<close>. From \<open>10^21\<close> on the language prints the default form instead. The
  value rounded is the exact real, not the nearest double.
\<close>

definition js_toFixed :: "real \<Rightarrow> nat \<Rightarrow> piece" where
  "js_toFixed x f =
     (if 10 ^ 21 \<le> \<bar>x\<bar> then NumStr (Num x)
      else
        let s = (if x < 0 then ''-'' else '''');
            n = nat \<lfloor>\<bar>x\<bar> * 10 ^ f + 1 / 2\<rfloor>;
            m = digits n;
            k = length m;
            m' = (if f \<noteq> 0 \<and> k \<le> f then replicate (f + 1 - k) (CHR ''0'') @ m else m);
            k' = length m'
        in Lit (s @ (if f \<noteq> 0 then take (k' - f) m' @ ''.'' @ drop (k' - f) m' else m')))"

text \<open>\<open>s.split(' ')[0]\<close>: the text before the first space.\<close>

definition split_first :: "string \<Rightarrow> string" where
  "split_first s = takeWhile (\<lambda>c. c \<noteq> CHR '' '') s"

subsection \<open>The document and the library\<close>

text \<open>
  An element appended to the chart: its tag, the attributes set on it in order, its text and
  its children. An attribute is a number, a string or a template string.
\<close>

datatype attr_value = N jsnum | S string | Template "piece list"

datatype svg = Element string "(string \<times> attr_value) list" "piece list" "svg list"

fun tag :: "svg \<Rightarrow> string" where
  "tag (Element t as txt cs) = t"

fun attrs :: "svg \<Rightarrow> (string \<times> attr_value) list" where
  "attrs (Element t as txt cs) = as"

fun content :: "svg \<Rightarrow> piece list" where
  "content (Element t as txt cs) = txt"

fun children :: "svg \<Rightarrow> svg list" where
  "children (Element t as txt cs) = cs"

text \<open>The numeric attribute of the given name.\<close>

definition num_attr :: "string \<Rightarrow> svg \<Rightarrow> jsnum option" where
  "num_attr name e = (case map_of (attrs e) name of Some (N a) \<Rightarrow> Some a | _ \<Rightarrow> None)"

text \<open>\<open>.attr(name, v)\<close> on an element that may have the attribute already.\<close>

fun set_attr :: "string \<Rightarrow> attr_value \<Rightarrow> (string \<times> attr_value) list \<Rightarrow> (string \<times> attr_value) list" where
  "set_attr name v [] = [(name, v)]"
| "set_attr name v ((k, w) # as) = (if k = name then (k, v) # as else (k, w) # set_attr name v as)"

text \<open>\<open>.selectAll('text').attr('fill', c)\<close>: every text element below gets the fill.\<close>

primrec fill_texts :: "string \<Rightarrow> svg \<Rightarrow> svg" where
  "fill_texts c (Element t as txt cs) =
     Element t (if t = ''text'' then set_attr ''fill'' (S c) as else as) txt (map (fill_texts c) cs)"

text \<open>What \<open>render\<close> does to an axis group after the axis has been drawn into it.\<close>

definition style_axis :: "svg \<Rightarrow> svg" where
  "style_axis g =
     Element (tag g) (set_attr ''color'' (S ''#888'') (attrs g)) (content g)
       (map (fill_texts ''#ccc'') (children g))"

text \<open>
  The functions of the D3 library the charts call. The library is loaded by the host page
  and is not part of the repository, so it is a parameter: \<open>d3.max\<close> and \<open>d3.min\<close> of the
  accessed values (as numbers, NaN for \<open>undefined\<close>), a linear scale of a domain and a range,
  the sequential scale of domain \<open>[0, 1]\<close> with the interpolator \<open>d3.interpolateReds\<close>, the
  path of the line generator with \<open>curveMonotoneX\<close> through the given points, and the two
  axes, with their scale and tick count, drawing into a group.
\<close>

record d3lib =
  d3_max :: "real list \<Rightarrow> jsnum"
  d3_min :: "real list \<Rightarrow> jsnum"
  scaleLinear :: "jsnum \<times> jsnum \<Rightarrow> jsnum \<times> jsnum \<Rightarrow> jsnum \<Rightarrow> jsnum"
  sequentialReds :: "jsnum \<Rightarrow> string"
  line_monotoneX :: "(jsnum \<times> jsnum) list \<Rightarrow> string"
  axisBottom :: "jsnum \<times> jsnum \<Rightarrow> jsnum \<times> jsnum \<Rightarrow> nat \<Rightarrow> svg \<Rightarrow> svg"
  axisLeft :: "jsnum \<times> jsnum \<Rightarrow> jsnum \<times> jsnum \<Rightarrow> nat \<Rightarrow> svg \<Rightarrow> svg"

subsection \<open>BaseViz\<close>

text \<open>The margins and the inner size that the constructor computes.\<close>

definition margin_top :: real where "margin_top = 15"
definition margin_right :: real where "margin_right = 15"
definition margin_bottom :: real where "margin_bottom = 25"
definition margin_left :: real where "margin_left = 40"

definition viz_width :: real where
  "viz_width = 300 - margin_left - margin_right"

definition viz_height :: real where
  "viz_height = 200 - margin_top - margin_bottom"

text \<open>
  The fields of a chart object that change: \<open>this.data\<close>, the content of its container
  element, and, beside them, what has been written to the console.
\<close>

record 'a viz =
  viz_data :: "'a option"
  viz_container :: "svg list"
  viz_console :: "console_entry list"

text \<open>
  \<open>loadData\<close>: the parsed document is stored in \<open>this.data\<close>; a rejected fetch or parse is
  logged and leaves \<open>this.data\<close> as it was.
\<close>

definition loadData :: "string \<Rightarrow> 'a fetch_result \<Rightarrow> 'a viz \<Rightarrow> 'a viz" where
  "loadData url r this =
     (case r of
        FetchJson doc \<Rightarrow> this\<lparr>viz_data := doc\<rparr>
      | FetchFailed \<Rightarrow>
          this\<lparr>viz_console := viz_console this @ [ConsoleError (''Error loading data from '' @ url @ '':'')]\<rparr>)"

text \<open>
  \<open>clear\<close> followed by \<open>createSVG\<close> and the appends of \<open>render\<close>: the container holds one
  \<open>svg\<close> with one translated group, and \<open>render\<close> appends to that group. The container
  element is taken to exist in the page.
\<close>

definition createSVG :: "svg list \<Rightarrow> svg list" where
  "createSVG cs =
     [Element ''svg''
        [(''width'', N (Num (viz_width + margin_left + margin_right))),
         (''height'', N (Num (viz_height + margin_top + margin_bottom)))] []
        [Element ''g''
           [(''transform'', Template [Lit ''translate('', NumStr (Num margin_left), Lit '','',
                                     NumStr (Num margin_top), Lit '')''])] [] cs]]"

subsection \<open>KalmanViz\<close>

text \<open>The Kalman asset: \<open>{spread: [{time, value}], signals: [{time, value, type}]}\<close>.\<close>

record sample =
  sample_time :: real
  sample_value :: real

record signal =
  signal_time :: real
  signal_value :: real
  signal_type :: string

record kalman_data =
  spread :: "sample list"
  signals :: "signal list"

text \<open>The marker of one signal: a triangle down, a triangle up or a cross.\<close>

definition signal_marker :: "(jsnum \<Rightarrow> jsnum) \<Rightarrow> (jsnum \<Rightarrow> jsnum) \<Rightarrow> signal \<Rightarrow> svg" where
  "signal_marker xScale yScale sg =
     (let color = (if signal_type sg = ''short'' then ''#ff4c4c''
                   else if signal_type sg = ''long'' then ''#4cff4c'' else ''#ffcc00'');
          symbol = (if signal_type sg = ''short'' then CodePoint 9660
                    else if signal_type sg = ''long'' then CodePoint 9650 else CodePoint 215)
      in Element ''text''
           [(''x'', N (xScale (Num (signal_time sg)))),
            (''y'', N (yScale (Num (signal_value sg)) - Num 8)),
            (''text-anchor'', S ''middle''),
            (''fill'', S color),
            (''font-size'', S ''14px''),
            (''font-weight'', S ''bold'')]
           [symbol] [])"

text \<open>\<open>KalmanViz.render\<close>: the content of the container afterwards.\<close>

definition KalmanViz_render :: "d3lib \<Rightarrow> kalman_data \<Rightarrow> svg list" where
  "KalmanViz_render d3 dat =
     (let xDomain = (Num 0, d3_max d3 (map sample_time (spread dat)));
          xRange = (Num 0, Num viz_width);
          xScale = scaleLinear d3 xDomain xRange;
          yDomain = (d3_min d3 (map sample_value (spread dat)) - Num 0.1,
                     d3_max d3 (map sample_value (spread dat)) + Num 0.1);
          yRange = (Num viz_height, Num 0);
          yScale = scaleLinear d3 yDomain yRange
      in createSVG
          ([Element ''line''
              [(''x1'', N (Num 0)), (''x2'', N (Num viz_width)),
               (''y1'', N (yScale (Num 0))), (''y2'', N (yScale (Num 0))),
               (''stroke'', S ''#555''), (''stroke-width'', N (Num 1)),
               (''stroke-dasharray'', S ''3,3'')] [] [],
            Element ''rect''
              [(''x'', N (Num 0)), (''y'', N (Num 0)), (''width'', N (Num viz_width)),
               (''height'', N (yScale (Num 0.5) - yScale (Num 0.8))),
               (''transform'', Template [Lit ''translate(0, '', NumStr (yScale (Num 0.8)), Lit '')'']),
               (''fill'', S ''#ff4c4c''), (''opacity'', N (Num 0.1))] [] [],
            Element ''rect''
              [(''x'', N (Num 0)), (''y'', N (yScale (Num (- 0.5)))), (''width'', N (Num viz_width)),
               (''height'', N (yScale (Num (- 0.5)) - yScale (Num (- 0.8)))),
               (''fill'', S ''#4cff4c''), (''opacity'', N (Num 0.1))] [] [],
            Element ''path''
              [(''fill'', S ''none''), (''stroke'', S ''#ff4c4c''), (''stroke-width'', N (Num 2)),
               (''d'', S (line_monotoneX d3
                    (map (\<lambda>d. (xScale (Num (sample_time d)), yScale (Num (sample_value d))))
                       (spread dat))))] [] []] @
           map (signal_marker xScale yScale) (signals dat) @
           [style_axis
              (axisBottom d3 xDomain xRange 5
                 (Element ''g''
                    [(''transform'', Template [Lit ''translate(0,'', NumStr (Num viz_height), Lit '')''])]
                    [] [])),
            style_axis (axisLeft d3 yDomain yRange 5 (Element ''g'' [] [] [])),
            Element ''text''
              [(''x'', N (Num (viz_width / 2))), (''y'', N (Num (viz_height + 20))),
               (''text-anchor'', S ''middle''), (''fill'', S ''#aaa''), (''font-size'', S ''10px'')]
              [Lit ''Time (days)''] [],
            Element ''text''
              [(''transform'', S ''rotate(-90)''),
               (''x'', N (Num (- viz_height / 2))), (''y'', N (Num (- 28))),
               (''text-anchor'', S ''middle''), (''fill'', S ''#aaa''), (''font-size'', S ''10px'')]
              [Lit ''Spread''] [],
            Element ''text''
              [(''x'', N (Num (viz_width / 2))), (''y'', N (Num (- 5))),
               (''text-anchor'', S ''middle''), (''fill'', S ''#ff4c4c''), (''font-size'', S ''11px''),
               (''font-weight'', S ''bold'')]
              [Lit ''Kalman Filter Spread Tracking''] []]))"

text \<open>\<open>KalmanViz.init\<close>, for the outcome of its fetch.\<close>

definition KalmanViz_init :: "d3lib \<Rightarrow> kalman_data fetch_result \<Rightarrow> kalman_data viz \<Rightarrow> kalman_data viz" where
  "KalmanViz_init d3 r this =
     (let this1 = loadData ''data/kalman-data.json'' r this
      in case viz_data this1 of
           Some dat \<Rightarrow> this1\<lparr>viz_container := KalmanViz_render d3 dat\<rparr>
         | None \<Rightarrow> this1)"

subsection \<open>MarkovViz\<close>

text \<open>
  The Markov asset:
  \<open>{transitionMatrix: number[][], states: string[], stateDistribution: [{state, probability}]}\<close>.
\<close>

record state_probability =
  state :: string
  probability :: real

record markov_data =
  transitionMatrix :: "real list list"
  states :: "string list"
  stateDistribution :: "state_probability list"

text \<open>The rectangle and the label of the cell in row \<open>i\<close>, column \<open>j\<close>.\<close>

definition heatmap_cell :: "d3lib \<Rightarrow> real \<Rightarrow> nat \<Rightarrow> nat \<Rightarrow> real \<Rightarrow> svg list" where
  "heatmap_cell d3 cellSize i j val =
     (let x = real j * cellSize + (viz_width - cellSize * 2) / 2;
          y = real i * cellSize
      in [Element ''rect''
            [(''x'', N (Num x)), (''y'', N (Num y)),
             (''width'', N (Num cellSize)), (''height'', N (Num cellSize)),
             (''fill'', S (sequentialReds d3 (Num val))),
             (''stroke'', S ''#333''), (''stroke-width'', N (Num 1))] [] [],
          Element ''text''
            [(''x'', N (Num (x + cellSize / 2))), (''y'', N (Num (y + cellSize / 2 + 5))),
             (''text-anchor'', S ''middle''),
             (''fill'', S (if val > 0.5 then ''#fff'' else ''#333'')),
             (''font-size'', S ''14px''), (''font-weight'', S ''bold'')]
            [js_toFixed val 2] []])"

text \<open>The row label and the column label of state \<open>i\<close>.\<close>

definition state_labels :: "real \<Rightarrow> nat \<Rightarrow> string \<Rightarrow> svg list" where
  "state_labels cellSize i st =
     [Element ''text''
        [(''x'', N (Num ((viz_width - cellSize * 2) / 2 - 5))),
         (''y'', N (Num (real i * cellSize + cellSize / 2 + 4))),
         (''text-anchor'', S ''end''), (''fill'', S ''#ccc''), (''font-size'', S ''9px'')]
        [Lit (split_first st)] [],
      Element ''text''
        [(''x'', N (Num (real i * cellSize + cellSize / 2 + (viz_width - cellSize * 2) / 2))),
         (''y'', N (Num (- 5))),
         (''text-anchor'', S ''middle''), (''fill'', S ''#ccc''), (''font-size'', S ''9px'')]
        [Lit (split_first st)] []]"

text \<open>
  The bar, the percentage label and the state label of entry \<open>i\<close> of the distribution.
  \<open>barWidth\<close> is \<open>width / length - 10\<close>; on an empty distribution that is a division by
  zero, and no bar is drawn with it.
\<close>

definition distribution_bar ::
  "(jsnum \<Rightarrow> jsnum) \<Rightarrow> real \<Rightarrow> real \<Rightarrow> nat \<Rightarrow> nat \<Rightarrow> state_probability \<Rightarrow> svg list" where
  "distribution_bar barScale barChartHeight barWidth n i d =
     (let x = real i * (barWidth + 10) + (viz_width - (barWidth + 10) * real n + 10) / 2;
          barHeight = js_max (Num 0) (barScale (Num (probability d)))
      in [Element ''rect''
            [(''x'', N (Num x)),
             (''y'', N (js_max (Num 0) (Num barChartHeight - barHeight))),
             (''width'', N (js_max (Num 0) (Num barWidth))),
             (''height'', N barHeight),
             (''fill'', S (if i = 0 then ''#4cff4c'' else ''#ff4c4c'')),
             (''opacity'', N (Num 0.7))] [] [],
          Element ''text''
            [(''x'', N (Num (x + barWidth / 2))),
             (''y'', N (Num barChartHeight - barHeight - Num 5)),
             (''text-anchor'', S ''middle''), (''fill'', S ''#ccc''), (''font-size'', S ''10px''),
             (''font-weight'', S ''bold'')]
            [js_toFixed (probability d * 100) 1, Lit ''%''] [],
          Element ''text''
            [(''x'', N (Num (x + barWidth / 2))),
             (''y'', N (Num (barChartHeight + 12))),
             (''text-anchor'', S ''middle''), (''fill'', S ''#aaa''), (''font-size'', S ''9px'')]
            [Lit (split_first (state d))] []])"

text \<open>The group of the heatmap: cells row by row, state labels, title.\<close>

definition heatmapGroup :: "d3lib \<Rightarrow> markov_data \<Rightarrow> svg" where
  "heatmapGroup d3 dat =
     (let heatmapHeight = max (viz_height * 0.55) 60;
          cellSize = min (viz_width / 2.5) (heatmapHeight / 2.5)
      in Element ''g'' [] []
           (concat (map (\<lambda>(i, row). concat (map (\<lambda>(j, val). heatmap_cell d3 cellSize i j val)
                                                 (enumerate 0 row)))
                      (enumerate 0 (transitionMatrix dat))) @
            concat (map (\<lambda>(i, st). state_labels cellSize i st) (enumerate 0 (states dat))) @
            [Element ''text''
               [(''x'', N (Num (viz_width / 2))), (''y'', N (Num (- 15))),
                (''text-anchor'', S ''middle''), (''fill'', S ''#ff4c4c''), (''font-size'', S ''11px''),
                (''font-weight'', S ''bold'')]
               [Lit ''Transition Probability Matrix''] []]))"

text \<open>The group of the bar chart: one bar with its labels for each entry, then the title.\<close>

definition barChartGroup :: "d3lib \<Rightarrow> markov_data \<Rightarrow> svg" where
  "barChartGroup d3 dat =
     (let heatmapHeight = max (viz_height * 0.55) 60;
          barChartHeight = max (viz_height * 0.35) 40;
          gap = viz_height * 0.10;
          n = length (stateDistribution dat);
          barWidth = viz_width / real n - 10;
          barScale = scaleLinear d3 (Num 0, Num 1) (Num 0, Num barChartHeight)
      in Element ''g''
           [(''transform'', Template [Lit ''translate(0, '', NumStr (Num (heatmapHeight + gap)), Lit '')''])] []
           (concat (map (\<lambda>(i, d). distribution_bar barScale barChartHeight barWidth n i d)
                      (enumerate 0 (stateDistribution dat))) @
            [Element ''text''
               [(''x'', N (Num (viz_width / 2))), (''y'', N (Num (- 5))),
                (''text-anchor'', S ''middle''), (''fill'', S ''#aaa''), (''font-size'', S ''9px'')]
               [Lit ''Steady-State Distribution''] []]))"

text \<open>\<open>MarkovViz.render\<close> and \<open>MarkovViz.init\<close>.\<close>

definition MarkovViz_render :: "d3lib \<Rightarrow> markov_data \<Rightarrow> svg list" where
  "MarkovViz_render d3 dat = createSVG [heatmapGroup d3 dat, barChartGroup d3 dat]"

definition MarkovViz_init :: "d3lib \<Rightarrow> markov_data fetch_result \<Rightarrow> markov_data viz \<Rightarrow> markov_data viz" where
  "MarkovViz_init d3 r this =
     (let this1 = loadData ''data/markov-data.json'' r this
      in case viz_data this1 of
           Some dat \<Rightarrow> this1\<lparr>viz_container := MarkovViz_render d3 dat\<rparr>
         | None \<Rightarrow> this1)"

text \<open>The object the constructor leaves, for a container with the given content.\<close>

definition new_viz :: "svg list \<Rightarrow> 'a viz" where
  "new_viz c0 = \<lparr>viz_data = None, viz_container = c0, viz_console = []\<rparr>"

subsection \<open>Observations on the charts\<close>

text \<open>
  A stand-in for the library in examples: greatest and least element, the linear scale of a
  domain that starts at 0 and is one unit wide, one colour, one path, and axes that draw
  nothing.
\<close>

definition example_d3 :: d3lib where
  "example_d3 =
     \<lparr>d3_max = (\<lambda>xs. if xs = [] then NaN else Num (Max (set xs))),
      d3_min = (\<lambda>xs. if xs = [] then NaN else Num (Min (set xs))),
      scaleLinear = (\<lambda>d r x. fst r + (x - fst d) * (snd r - fst r)),
      sequentialReds = (\<lambda>t. ''red''),
      line_monotoneX = (\<lambda>ps. ''M''),
      axisBottom = (\<lambda>d r n g. g),
      axisLeft = (\<lambda>d r n g. g)\<rparr>"

text \<open>The data a fetch returned, if it returned any.\<close>

definition fetch_returned :: "'a fetch_result \<Rightarrow> 'a option" where
  "fetch_returned r = (case r of FetchJson doc \<Rightarrow> doc | FetchFailed \<Rightarrow> None)"

text \<open>A scale that maps every number to a number.\<close>

definition numeric_scale :: "(jsnum \<Rightarrow> jsnum) \<Rightarrow> bool" where
  "numeric_scale f = (\<forall>p. \<exists>r. f (Num p) = Num r)"

text \<open>The named attribute is a number and is not negative.\<close>

definition nonneg_attr :: "string \<Rightarrow> svg \<Rightarrow> bool" where
  "nonneg_attr name e = (case num_attr name e of Some (Num a) \<Rightarrow> 0 \<le> a | _ \<Rightarrow> False)"

text \<open>The rectangles directly in a group.\<close>

definition bars :: "svg \<Rightarrow> svg list" where
  "bars g = filter (\<lambda>e. tag e = ''rect'') (children g)"

section \<open>Properties of interpolateSigma\<close>

lemma js_index_of_int:
  "js_index xs (Num (of_int k)) = (if 0 \<le> k \<and> k < int (length xs) then Some (xs ! nat k) else None)"
  by auto

lemma rectangular_row: "rectangular grid nRows nCols \<Longrightarrow> i < nRows \<Longrightarrow> length (grid ! i) = nCols"
  by (simp add: rectangular_def list_all_length)

subsection \<open>Inside the grid\<close>

lemma js_min_int:
  "js_min (Num (of_int a) + Num 1) (Num (real n - 1)) = Num (of_int (min (a + 1) (int n - 1)))"
  by (simp add: min_def)

lemma frac_bounds: "0 \<le> (g::real) - of_int \<lfloor>g\<rfloor>" "g - of_int \<lfloor>g\<rfloor> < 1"
  by linarith+

lemma interpolateSigma_inside:
  fixes u v :: real
  assumes R: "rectangular grid nRows nCols"
    and gx: "0 \<le> u * (real nCols - 1)" "u * (real nCols - 1) < real nCols"
    and gy: "0 \<le> v * (real nRows - 1)" "v * (real nRows - 1) < real nRows"
  shows "interpolateSigma (Num u) (Num v) grid nRows nCols =
     Inr (Num (let fx = u * (real nCols - 1) - of_int \<lfloor>u * (real nCols - 1)\<rfloor>;
                   fy = v * (real nRows - 1) - of_int \<lfloor>v * (real nRows - 1)\<rfloor>;
                   cs = cell_corners u v grid nRows nCols
               in (1 - fx) * (1 - fy) * (cs ! 0) + fx * (1 - fy) * (cs ! 1) +
                  (1 - fx) * fy * (cs ! 2) + fx * fy * (cs ! 3)))"
proof -
  define x0 where "x0 = \<lfloor>u * (real nCols - 1)\<rfloor>"
  define y0 where "y0 = \<lfloor>v * (real nRows - 1)\<rfloor>"
  define x1 where "x1 = min (x0 + 1) (int nCols - 1)"
  define y1 where "y1 = min (y0 + 1) (int nRows - 1)"
  have x0: "0 \<le> x0" "x0 < int nCols" using gx unfolding x0_def by (simp_all add: floor_less_iff)
  have y0: "0 \<le> y0" "y0 < int nRows" using gy unfolding y0_def by (simp_all add: floor_less_iff)
  have x1: "0 \<le> x1" "x1 < int nCols" using x0 unfolding x1_def by auto
  have y1: "0 \<le> y1" "y1 < int nRows" using y0 unfolding y1_def by auto
  have len: "length grid = nRows" using R by (simp add: rectangular_def)
  have l0: "length (grid ! nat y0) = nCols" using R y0 by (intro rectangular_row) auto
  have l1: "length (grid ! nat y1) = nCols" using R y1 by (intro rectangular_row) auto
  have nx1: "nat x1 = min (nat x0 + 1) (nCols - 1)" using x0 unfolding x1_def by auto
  have ny1: "nat y1 = min (nat y0 + 1) (nRows - 1)" using y0 unfolding y1_def by auto
  have F: "js_floor (Num u * Num (real nCols - 1)) = Num (of_int x0)"
    "js_floor (Num v * Num (real nRows - 1)) = Num (of_int y0)"
    by (simp_all add: x0_def y0_def)
  have M: "js_min (Num (of_int x0) + Num 1) (Num (real nCols - 1)) = Num (of_int x1)"
    "js_min (Num (of_int y0) + Num 1) (Num (real nRows - 1)) = Num (of_int y1)"
    by (simp_all add: js_min_int x1_def y1_def)
  have I: "js_index grid (Num (of_int y0)) = Some (grid ! nat y0)"
    "js_index grid (Num (of_int y1)) = Some (grid ! nat y1)"
    "js_index (grid ! nat y0) (Num (of_int x0)) = Some (grid ! nat y0 ! nat x0)"
    "js_index (grid ! nat y0) (Num (of_int x1)) = Some (grid ! nat y0 ! nat x1)"
    "js_index (grid ! nat y1) (Num (of_int x0)) = Some (grid ! nat y1 ! nat x0)"
    "js_index (grid ! nat y1) (Num (of_int x1)) = Some (grid ! nat y1 ! nat x1)"
    using x0 y0 x1 y1 len l0 l1 by (simp_all only: js_index_of_int) simp_all
  have C: "cell_corners u v grid nRows nCols =
      [grid ! nat y0 ! nat x0, grid ! nat y0 ! nat x1, grid ! nat y1 ! nat x0, grid ! nat y1 ! nat x1]"
    unfolding cell_corners_def Let_def nx1 ny1 x0_def y0_def ..
  show ?thesis
    by (simp only: interpolateSigma_def Let_def F M I C option.case to_number.simps)
       (simp add: x0_def y0_def)
qed


subsection \<open>Convexity\<close>






lemma unit_to_grid:
  fixes u :: real
  assumes "0 \<le> u" "u \<le> 1" "1 \<le> n"
  shows "0 \<le> u * (real n - 1)" "u * (real n - 1) < real n"
proof -
  show "0 \<le> u * (real n - 1)" using assms by simp
  have "u * (real n - 1) \<le> 1 * (real n - 1)" using assms by (intro mult_right_mono) auto
  then show "u * (real n - 1) < real n" by simp
qed



subsection \<open>Grid nodes\<close>

lemma interpolateSigma_exact_at_node:
  fixes u v :: real
  assumes "rectangular grid nRows nCols"
    and "u * (real nCols - 1) = real gx" "gx < nCols"
    and "v * (real nRows - 1) = real gy" "gy < nRows"
  shows "interpolateSigma (Num u) (Num v) grid nRows nCols = Inr (Num (grid ! gy ! gx))"
proof -
  have gx: "0 \<le> u * (real nCols - 1)" "u * (real nCols - 1) < real nCols"
    using assms by simp_all
  have gy: "0 \<le> v * (real nRows - 1)" "v * (real nRows - 1) < real nRows"
    using assms by simp_all
  show ?thesis
    using interpolateSigma_inside[OF assms(1) gx gy] assms(2,4)
    by (simp add: Let_def cell_corners_def)
qed

subsection \<open>Positions outside the grid\<close>

lemma jsnum_NaN [simp]:
  "a + NaN = NaN" "NaN + a = NaN" "a * NaN = NaN" "NaN * a = NaN" "a - NaN = NaN" "NaN - a = NaN"
  by (cases a; simp)+







section \<open>interpolateSigma in double precision\<close>



text \<open>Integers below \<open>2^53\<close> in absolute value are doubles, and the rounding leaves them.\<close>

lemma round_half_even_of_int: "round_half_even (of_int m) = m"
  by (simp add: round_half_even_def Let_def)

lemma f64_round_of_int:
  assumes "\<bar>k\<bar> < 2 ^ 53"
  shows "f64_round (of_int k) = of_int k"
proof (cases "k = 0")
  case True
  then show ?thesis by (simp add: f64_round_def)
next
  case False
  let ?x = "of_int k :: real"
  let ?L = "\<lfloor>log 2 \<bar>?x\<bar>\<rfloor>"
  have one: "1 \<le> \<bar>?x\<bar>" using False by (simp flip: of_int_abs)
  have "\<bar>?x\<bar> < 2 ^ 53" using assms by (simp flip: of_int_abs)
  then have "\<bar>?x\<bar> < 2 powr 53" by simp
  then have "log 2 \<bar>?x\<bar> < 53" using one by (simp add: log_less_iff)
  then have up: "?L \<le> 52" by (simp add: floor_le_iff)
  have "0 \<le> log 2 \<bar>?x\<bar>" using one by simp
  then have lo: "0 \<le> ?L" by simp
  define n where "n = nat (52 - ?L)"
  have e: "max ?L (- 1022) - 52 = - int n" using up lo by (simp add: n_def)
  have p: "(2::real) powi (- int n) = 1 / 2 ^ n"
    by (simp add: power_int_minus field_simps)
  have "?x / (2 powi (- int n)) = of_int (k * 2 ^ n)"
    unfolding p by simp
  then have "round_half_even (?x / (2 powi (- int n))) = k * 2 ^ n"
    by (simp only: round_half_even_of_int)
  then have "f64_round ?x = of_int (k * 2 ^ n) * (2 powi (- int n))"
    using False by (simp add: f64_round_def Let_def e)
  then show ?thesis unfolding p by simp
qed

lemma f64_round_simple [simp]: "f64_round 0 = 0" "f64_round 1 = 1"
  using f64_round_of_int[of 0] f64_round_of_int[of 1] by simp_all

lemma f64_round_nat:
  assumes "n < 2 ^ 53"
  shows "f64_round (real n) = real n"
  using f64_round_of_int[of "int n"] assms by simp


text \<open>
  At a node every operation of the function is exact: the weights are 0 and 1, and the sum
  adds zeros to the stored value.
\<close>

lemma interpolateSigma_f64_at_node:
  fixes u v :: real
  assumes R: "rectangular grid nRows nCols"
    and small: "nRows < 2 ^ 53" "nCols < 2 ^ 53"
    and gx: "f64_round (u * (real nCols - 1)) = real gx" "gx < nCols"
    and gy: "f64_round (v * (real nRows - 1)) = real gy" "gy < nRows"
    and double: "f64_round (grid ! gy ! gx) = grid ! gy ! gx"
  shows "interpolateSigma_f64 (Num u) (Num v) grid nRows nCols = Inr (Num (grid ! gy ! gx))"
proof -
  define x1 where "x1 = min (gx + 1) (nCols - 1)"
  define y1 where "y1 = min (gy + 1) (nRows - 1)"
  have x1: "x1 < nCols" and y1: "y1 < nRows" using gx(2) gy(2) by (auto simp: x1_def y1_def)
  have len: "length grid = nRows" using R by (simp add: rectangular_def)
  have l0: "length (grid ! gy) = nCols" using R gy(2) by (rule rectangular_row)
  have l1: "length (grid ! y1) = nCols" using R y1 by (rule rectangular_row)
  have pred: "f64_round (real n - 1) = real n - 1" if "0 < n" "n < 2 ^ 53" for n
    using f64_round_nat[of "n - 1"] that by (simp add: of_nat_diff)
  have succ: "f64_round (real n + 1) = real n + 1" if "n < m" "m < 2 ^ 53" for n m :: nat
    using f64_round_nat[of "n + 1"] that by (simp add: add.commute)
  have C1: "sub64 (Num (real nCols)) (Num 1) = Num (real nCols - 1)"
    using gx(2) small(2) by (simp add: sub64_def pred)
  have R1: "sub64 (Num (real nRows)) (Num 1) = Num (real nRows - 1)"
    using gy(2) small(1) by (simp add: sub64_def pred)
  have GX: "mul64 (Num u) (Num (real nCols - 1)) = Num (real gx)"
    by (simp add: mul64_def gx(1))
  have GY: "mul64 (Num v) (Num (real nRows - 1)) = Num (real gy)"
    by (simp add: mul64_def gy(1))
  have F: "js_floor (Num (real gx)) = Num (real gx)" "js_floor (Num (real gy)) = Num (real gy)"
    by simp_all
  have min_nat: "js_min (Num (real a)) (Num (real b)) = Num (real (min a b))" for a b :: nat
    by (simp add: min_def)
  have A1: "add64 (Num (real gx)) (Num 1) = Num (real (gx + 1))"
    "add64 (Num (real gy)) (Num 1) = Num (real (gy + 1))"
    using succ[OF gx(2) small(2)] succ[OF gy(2) small(1)] by (simp_all add: add64_def)
  have P1: "Num (real nCols - 1) = Num (real (nCols - 1))" "Num (real nRows - 1) = Num (real (nRows - 1))"
    using gx(2) gy(2) by (simp_all add: of_nat_diff)
  have X1: "js_min (add64 (Num (real gx)) (Num 1)) (Num (real nCols - 1)) = Num (real x1)"
    unfolding A1 P1 min_nat x1_def ..
  have Y1: "js_min (add64 (Num (real gy)) (Num 1)) (Num (real nRows - 1)) = Num (real y1)"
    unfolding A1 P1 min_nat y1_def ..
  have FX: "sub64 (Num (real gx)) (Num (real gx)) = Num 0"
    "sub64 (Num (real gy)) (Num (real gy)) = Num 0"
    by (simp_all add: sub64_def)
  have ONE: "sub64 (Num 1) (Num 0) = Num 1" by (simp add: sub64_def)
  have I: "js_index grid (Num (real gy)) = Some (grid ! gy)"
    "js_index grid (Num (real y1)) = Some (grid ! y1)"
    "js_index (grid ! gy) (Num (real gx)) = Some (grid ! gy ! gx)"
    "js_index (grid ! gy) (Num (real x1)) = Some (grid ! gy ! x1)"
    "js_index (grid ! y1) (Num (real gx)) = Some (grid ! y1 ! gx)"
    "js_index (grid ! y1) (Num (real x1)) = Some (grid ! y1 ! x1)"
    using gx(2) gy(2) x1 y1 len l0 l1 by simp_all
  have W: "mul64 (Num 1) (Num 1) = Num 1" "mul64 (Num 0) (Num 1) = Num 0"
    "mul64 (Num 1) (Num 0) = Num 0" "mul64 (Num 0) (Num 0) = Num 0"
    "mul64 (Num 0) (Num a) = Num 0" for a
    by (simp_all add: mul64_def)
  have V: "mul64 (Num 1) (Num (grid ! gy ! gx)) = Num (grid ! gy ! gx)"
    by (simp add: mul64_def double)
  have S: "add64 (Num (grid ! gy ! gx)) (Num 0) = Num (grid ! gy ! gx)"
    by (simp add: add64_def double)
  show ?thesis
    by (simp only: interpolateSigma_f64_def Let_def C1 R1 GX GY F X1 Y1 FX ONE I W V S
        option.case to_number.simps)
qed













text \<open>
  Claim C2. On a grid of \<open>nRows \<ge> 2\<close> rows of \<open>nCols \<ge> 2\<close> values each, when
  \<open>u * (nCols - 1)\<close> and \<open>v * (nRows - 1)\<close> are the integers \<open>gx\<close> and \<open>gy\<close> of a node of
  the grid, \<open>interpolateSigma\<close> returns the stored value \<open>grid[gy][gx]\<close> itself: in exact
  arithmetic, and in double precision as well, where the two products are the rounded ones,
  the stored value is a double and the grid has fewer than \<open>2^53\<close> rows and columns.
\<close>

theorem interpolateSigma_at_node:
  fixes u v :: real
  assumes "rectangular grid nRows nCols" "2 \<le> nRows" "2 \<le> nCols" "gx < nCols" "gy < nRows"
  shows "(u * (real nCols - 1) = real gx \<and> v * (real nRows - 1) = real gy \<longrightarrow>
           interpolateSigma (Num u) (Num v) grid nRows nCols = Inr (Num (grid ! gy ! gx))) \<and>
         (f64_round (u * (real nCols - 1)) = real gx \<and> f64_round (v * (real nRows - 1)) = real gy \<and>
          f64_round (grid ! gy ! gx) = grid ! gy ! gx \<and> nRows < 2 ^ 53 \<and> nCols < 2 ^ 53 \<longrightarrow>
           interpolateSigma_f64 (Num u) (Num v) grid nRows nCols = Inr (Num (grid ! gy ! gx)))"
  using interpolateSigma_exact_at_node[OF assms(1) _ assms(4) _ assms(5)]
    interpolateSigma_f64_at_node[OF assms(1) _ _ _ assms(4) _ assms(5)]
  by blast

theorem interpolateSigma_at_node_witness:
  "rectangular [[1, 2, 3], [4, 5, 6], [7, 8, 9]] 3 3 \<and>
   (1 / 2) * (real (3::nat) - 1) = real (1::nat) \<and> 1 * (real (3::nat) - 1) = real (2::nat) \<and>
   interpolateSigma (Num (1 / 2)) (Num 1) [[1, 2, 3], [4, 5, 6], [7, 8, 9]] 3 3 = Inr (Num 8) \<and>
   interpolateSigma_f64 (Num (1 / 2)) (Num 1) [[1, 2, 3], [4, 5, 6], [7, 8, 9]] 3 3 = Inr (Num 8)"
proof -
  have R: "rectangular [[1, 2, 3], [4, 5, 6], [7, 8, 9]] 3 3" by (simp add: rectangular_def)
  have 8: "f64_round 8 = 8" using f64_round_of_int[of 8] by simp
  have 2: "f64_round 2 = 2" using f64_round_of_int[of 2] by simp
  from interpolateSigma_at_node[OF R, where u = "1/2" and v = 1 and gx = 1 and gy = 2] R 8 2
  show ?thesis by simp
qed

section \<open>Properties of createSurface\<close>

lemma for_loop_add:
  assumes "\<And>i s s'. body i s = Inr s' \<Longrightarrow> f s' = f s + (c::nat)"
  shows "for_loop xs body s = Inr s' \<Longrightarrow> f s' = f s + c * length xs"
proof (induction xs arbitrary: s)
  case Nil
  then show ?case by simp
next
  case (Cons i xs)
  from Cons.prems obtain s1 where s1: "body i s = Inr s1" and rest: "for_loop xs body s1 = Inr s'"
    by (auto split: sum.splits)
  from Cons.IH[OF rest] assms[OF s1] show ?case by simp
qed

lemma for_loop_total:
  assumes "\<And>i s. i \<in> set xs \<Longrightarrow> \<exists>s'. body i s = Inr s'"
  shows "\<exists>s'. for_loop xs body s = Inr s'"
  using assms
proof (induction xs arbitrary: s)
  case Nil
  then show ?case by simp
next
  case (Cons i xs)
  from Cons.prems[of i s] obtain s1 where s1: "body i s = Inr s1" by auto
  from Cons.IH[of s1] Cons.prems obtain s' where "for_loop xs body s1 = Inr s'" by auto
  with s1 show ?case by simp
qed

lemma interpolateSigma_no_throw:
  fixes v :: real
  assumes "g \<noteq> []" "0 \<le> v" "v \<le> 1"
  shows "\<exists>sigma. interpolateSigma u (Num v) g (length g) nCols = Inr sigma"
proof -
  define y0 where "y0 = \<lfloor>v * (real (length g) - 1)\<rfloor>"
  define y1 where "y1 = min (y0 + 1) (int (length g) - 1)"
  have n: "1 \<le> length g" using assms(1) by (cases g) auto
  have gy: "0 \<le> v * (real (length g) - 1)" "v * (real (length g) - 1) < real (length g)"
    using unit_to_grid[OF assms(2,3) n] by auto
  have y0: "0 \<le> y0" "y0 < int (length g)" using gy unfolding y0_def by (simp_all add: floor_less_iff)
  have y1: "0 \<le> y1" "y1 < int (length g)" using y0 unfolding y1_def by auto
  have F: "js_floor (Num v * Num (real (length g) - 1)) = Num (of_int y0)"
    by (simp add: y0_def)
  have M: "js_min (Num (of_int y0) + Num 1) (Num (real (length g) - 1)) = Num (of_int y1)"
    by (simp add: js_min_int y1_def)
  have I: "js_index g (Num (of_int y0)) = Some (g ! nat y0)"
    "js_index g (Num (of_int y1)) = Some (g ! nat y1)"
    using y0 y1 by (simp_all only: js_index_of_int) simp_all
  show ?thesis
    by (simp only: interpolateSigma_def Let_def F M I option.case) blast
qed

lemma index_fraction_unit:
  assumes "1 \<le> n" "j \<le> n"
  shows "\<exists>u. index_fraction j n = Num u \<and> 0 \<le> u \<and> u \<le> 1"
  using assms by (simp add: index_fraction_def)

lemma push_vertex_lengths:
  assumes "push_vertex cfg grid nRows nCols i j m = Inr m'"
  shows "length (mesh_baseHeights m') = length (mesh_baseHeights m) + 1"
    and "length (mesh_vertices m') = length (mesh_vertices m) + 3"
  using assms by (auto simp: push_vertex_def Let_def split: sum.splits)

lemma push_vertex_total:
  assumes "1 \<le> renderGrid_y cfg" "i \<le> renderGrid_y cfg"
    and "case grid of None \<Rightarrow> True | Some g \<Rightarrow> g \<noteq> [] \<and> nRows = length g"
  shows "\<exists>m'. push_vertex cfg grid nRows nCols i j m = Inr m'"
proof (cases grid)
  case None
  then show ?thesis by (simp add: push_vertex_def vertex_height_def Let_def)
next
  case (Some g)
  with assms(3) have g: "g \<noteq> []" "nRows = length g" by auto
  from index_fraction_unit[OF assms(1,2)] obtain v where
    v: "index_fraction i (renderGrid_y cfg) = Num v" "0 \<le> v" "v \<le> 1" by auto
  from interpolateSigma_no_throw[OF g(1) v(2,3)] obtain sigma where
    "interpolateSigma (index_fraction j (renderGrid_x cfg)) (Num v) g (length g) nCols = Inr sigma"
    by blast
  then show ?thesis using Some g v by (simp add: push_vertex_def vertex_height_def Let_def)
qed

lemma push_cell_length: "length (push_cell gridX i j ixs) = length ixs + 4"
  by (simp add: push_cell_def Let_def)

lemma fold_add_length:
  assumes "\<And>x ys. length (f x ys) = length ys + (c::nat)"
  shows "length (fold f xs ys) = length ys + c * length xs"
  by (induction xs arbitrary: ys) (simp_all add: assms)

lemma wireframe_indices_length: "length (wireframe_indices gridX gridY) = 4 * gridX * gridY"
proof -
  have inner: "\<And>i ixs. length (fold (\<lambda>j ixs. push_cell gridX i j ixs) [0..<gridX] ixs) =
      length ixs + 4 * gridX"
    using fold_add_length[where f = "\<lambda>j ixs. push_cell gridX _ j ixs" and c = 4, OF push_cell_length]
    by simp
  show ?thesis
    unfolding wireframe_indices_def
    using fold_add_length[where f = "\<lambda>i ixs. fold (\<lambda>j ixs. push_cell gridX i j ixs) [0..<gridX] ixs"
        and c = "4 * gridX" and xs = "[0..<gridY]" and ys = "[]", OF inner]
    by simp
qed

lemma createSurface_Inr:
  assumes "createSurface cfg surfaceData = Inr m"
  shows "length (mesh_vertices m) = 3 * ((renderGrid_x cfg + 1) * (renderGrid_y cfg + 1))"
    and "length (mesh_baseHeights m) = (renderGrid_x cfg + 1) * (renderGrid_y cfg + 1)"
    and "mesh_indices m = wireframe_indices (renderGrid_x cfg) (renderGrid_y cfg)"
proof -
  let ?gx = "renderGrid_x cfg" and ?gy = "renderGrid_y cfg"
  let ?grid = "case surfaceData of Some d \<Rightarrow> Some (surface_grid d) | None \<Rightarrow> None"
  let ?m0 = "\<lparr>mesh_vertices = [], mesh_indices = [], mesh_baseHeights = []\<rparr>"
  from assms obtain nRows nCols m1 where
    loop: "for_loop [0..<Suc ?gy]
             (\<lambda>i. for_loop [0..<Suc ?gx] (\<lambda>j. push_vertex cfg ?grid nRows nCols i j)) ?m0 = Inr m1"
    and m: "m = m1\<lparr>mesh_indices := wireframe_indices ?gx ?gy\<rparr>"
    unfolding createSurface_def Let_def by (auto split: sum.splits prod.splits)
  have B: "length (mesh_baseHeights m1) = (?gx + 1) * (?gy + 1)"
  proof -
    have "length (mesh_baseHeights m1) =
        length (mesh_baseHeights ?m0) + (?gx + 1) * length [0..<Suc ?gy]"
    proof (rule for_loop_add[where f = "\<lambda>s. length (mesh_baseHeights s)", OF _ loop])
      fix i s s'
      assume "for_loop [0..<Suc ?gx] (\<lambda>j. push_vertex cfg ?grid nRows nCols i j) s = Inr s'"
      from for_loop_add[where f = "\<lambda>s. length (mesh_baseHeights s)" and c = 1,
          OF push_vertex_lengths(1) this]
      show "length (mesh_baseHeights s') = length (mesh_baseHeights s) + (?gx + 1)" by simp
    qed
    then show ?thesis by simp
  qed
  have V: "length (mesh_vertices m1) = 3 * ((?gx + 1) * (?gy + 1))"
  proof -
    have "length (mesh_vertices m1) =
        length (mesh_vertices ?m0) + 3 * (?gx + 1) * length [0..<Suc ?gy]"
    proof (rule for_loop_add[where f = "\<lambda>s. length (mesh_vertices s)", OF _ loop])
      fix i s s'
      assume "for_loop [0..<Suc ?gx] (\<lambda>j. push_vertex cfg ?grid nRows nCols i j) s = Inr s'"
      from for_loop_add[where f = "\<lambda>s. length (mesh_vertices s)" and c = 3,
          OF push_vertex_lengths(2) this]
      show "length (mesh_vertices s') = length (mesh_vertices s) + 3 * (?gx + 1)" by simp
    qed
    then show ?thesis by (simp add: algebra_simps)
  qed
  show "length (mesh_vertices m) = 3 * ((?gx + 1) * (?gy + 1))" using V m by simp
  show "length (mesh_baseHeights m) = (?gx + 1) * (?gy + 1)" using B m by simp
  show "mesh_indices m = wireframe_indices ?gx ?gy" using m by simp
qed

lemma createSurface_total:
  assumes "1 \<le> renderGrid_y cfg" "has_rows surfaceData"
  shows "\<exists>m. createSurface cfg surfaceData = Inr m"
proof -
  let ?gx = "renderGrid_x cfg" and ?gy = "renderGrid_y cfg"
  let ?grid = "case surfaceData of Some d \<Rightarrow> Some (surface_grid d) | None \<Rightarrow> None"
  let ?m0 = "\<lparr>mesh_vertices = [], mesh_indices = [], mesh_baseHeights = []\<rparr>"
  have "\<exists>nRows nCols.
     (case ?grid of None \<Rightarrow> Inr (0, 0)
       | Some g \<Rightarrow> (case g of [] \<Rightarrow> Inl TypeError | row # _ \<Rightarrow> Inr (length g, length row))) =
     Inr (nRows, nCols) \<and>
     (case ?grid of None \<Rightarrow> True | Some g \<Rightarrow> g \<noteq> [] \<and> nRows = length g)"
  proof (cases surfaceData)
    case None
    then show ?thesis by simp
  next
    case (Some d)
    with assms(2) obtain row rows where "surface_grid d = row # rows"
      by (cases "surface_grid d") (auto simp: has_rows_def)
    with Some show ?thesis by simp
  qed
  then obtain nRows nCols where dims:
    "(case ?grid of None \<Rightarrow> Inr (0, 0)
       | Some g \<Rightarrow> (case g of [] \<Rightarrow> Inl TypeError | row # _ \<Rightarrow> Inr (length g, length row))) =
     Inr (nRows, nCols)"
    and ok: "case ?grid of None \<Rightarrow> True | Some g \<Rightarrow> g \<noteq> [] \<and> nRows = length g"
    by blast
  have row: "\<And>i s. i \<in> set [0..<Suc ?gy] \<Longrightarrow>
      \<exists>s'. for_loop [0..<Suc ?gx] (\<lambda>j. push_vertex cfg ?grid nRows nCols i j) s = Inr s'"
  proof -
    fix i s assume "i \<in> set [0..<Suc ?gy]"
    then have i: "i \<le> ?gy" by auto
    show "\<exists>s'. for_loop [0..<Suc ?gx] (\<lambda>j. push_vertex cfg ?grid nRows nCols i j) s = Inr s'"
      by (rule for_loop_total) (rule push_vertex_total[OF assms(1) i ok])
  qed
  from for_loop_total[where body = "\<lambda>i. for_loop [0..<Suc ?gx] (\<lambda>j. push_vertex cfg ?grid nRows nCols i j)"
      and xs = "[0..<Suc ?gy]" and s = ?m0, OF row]
  obtain m1 where "for_loop [0..<Suc ?gy]
             (\<lambda>i. for_loop [0..<Suc ?gx] (\<lambda>j. push_vertex cfg ?grid nRows nCols i j)) ?m0 = Inr m1"
    by blast
  then show ?thesis
    unfolding createSurface_def Let_def dims by simp
qed

text \<open>
  Claim C3, as amended. For a render grid of \<open>gx \<ge> 1\<close> by \<open>gy \<ge> 1\<close> segments, without a
  dataset or with one whose grid has a row, \<open>createSurface\<close> returns, with
  \<open>(gx + 1) * (gy + 1)\<close> vertices of three numbers each, as many base heights, and
  \<open>2 * gx * gy\<close> line segments of two index entries each: \<open>4 * gx * gy\<close> index entries.
\<close>

theorem createSurface_counts:
  assumes "1 \<le> renderGrid_x cfg" "1 \<le> renderGrid_y cfg" "has_rows surfaceData"
  shows "\<exists>m. createSurface cfg surfaceData = Inr m \<and>
             length (mesh_vertices m) = 3 * ((renderGrid_x cfg + 1) * (renderGrid_y cfg + 1)) \<and>
             length (mesh_baseHeights m) = (renderGrid_x cfg + 1) * (renderGrid_y cfg + 1) \<and>
             length (mesh_indices m) = 2 * (2 * renderGrid_x cfg * renderGrid_y cfg)"
proof -
  from createSurface_total[OF assms(2,3)] obtain m where m: "createSurface cfg surfaceData = Inr m"
    by blast
  from createSurface_Inr[OF m] m show ?thesis
    by (simp add: wireframe_indices_length)
qed

theorem createSurface_counts_witness:
  "1 \<le> renderGrid_x (default_config True) \<and> 1 \<le> renderGrid_y (default_config True) \<and>
   has_rows None \<and>
   (\<exists>m. createSurface (default_config True) None = Inr m \<and>
        length (mesh_vertices m) = 819 \<and> length (mesh_baseHeights m) = 273 \<and>
        length (mesh_indices m) = 960)"
  using createSurface_counts[of "default_config True" None]
  by (simp add: default_config_def has_rows_def)

text \<open>
  Claim C3 as stated fails in its count of index entries: one cell gives four entries,
  not two.
\<close>

theorem createSurface_index_entries_counterexample:
  "map_sum id mesh_indices
     (createSurface ((default_config True)\<lparr>renderGrid_x := 1, renderGrid_y := 1\<rparr>) None) =
   Inr [0, 2, 0, 1] \<and>
   length [0, 2, 0, 1 :: nat] \<noteq> 2 * 1 * 1"
  by (simp add: createSurface_def default_config_def Let_def push_vertex_def vertex_height_def
      wireframe_indices_def push_cell_def)

section \<open>Which formula gives the heights\<close>













lemma traverse_first_Inl: "f x = Inl e \<Longrightarrow> traverse f (x # xs) = Inl e"
  by simp






section \<open>Properties of animate\<close>





















section \<open>Properties of the charts\<close>

lemma viz_consts: "viz_width = 245" "viz_height = 160"
  by (simp_all add: viz_width_def viz_height_def margin_left_def margin_right_def margin_top_def
      margin_bottom_def)


lemma createSVG_nonempty: "createSVG cs \<noteq> []"
  by (simp add: createSVG_def)

lemma KalmanViz_render_nonempty: "KalmanViz_render d3 dat \<noteq> []"
  by (simp add: KalmanViz_render_def Let_def createSVG_nonempty)

lemma MarkovViz_render_nonempty: "MarkovViz_render d3 dat \<noteq> []"
  by (simp add: MarkovViz_render_def createSVG_nonempty)

text \<open>
  Claim C9. For both charts: when the fetch fails the error is logged and the container is
  left as it was; when it returns \<open>null\<close> nothing is logged and nothing is rendered; when it
  returns data the container holds what \<open>render\<close> draws. From an empty container, something
  is rendered exactly when the fetch returned data. There is no fallback dataset.
\<close>

theorem chart_init_by_fetch:
  "KalmanViz_init d3 r (new_viz c0) =
     (case r of
        FetchFailed \<Rightarrow>
          \<lparr>viz_data = None, viz_container = c0,
           viz_console = [ConsoleError ''Error loading data from data/kalman-data.json:'']\<rparr>
      | FetchJson None \<Rightarrow> \<lparr>viz_data = None, viz_container = c0, viz_console = []\<rparr>
      | FetchJson (Some dat) \<Rightarrow>
          \<lparr>viz_data = Some dat, viz_container = KalmanViz_render d3 dat, viz_console = []\<rparr>) \<and>
   MarkovViz_init d3 r' (new_viz c0') =
     (case r' of
        FetchFailed \<Rightarrow>
          \<lparr>viz_data = None, viz_container = c0',
           viz_console = [ConsoleError ''Error loading data from data/markov-data.json:'']\<rparr>
      | FetchJson None \<Rightarrow> \<lparr>viz_data = None, viz_container = c0', viz_console = []\<rparr>
      | FetchJson (Some dat) \<Rightarrow>
          \<lparr>viz_data = Some dat, viz_container = MarkovViz_render d3 dat, viz_console = []\<rparr>) \<and>
   (viz_container (KalmanViz_init d3 r (new_viz [])) \<noteq> []) = (fetch_returned r \<noteq> None) \<and>
   (viz_container (MarkovViz_init d3 r' (new_viz [])) \<noteq> []) = (fetch_returned r' \<noteq> None)"
proof -
  have K: "KalmanViz_init d3 r (new_viz c) =
     (case r of
        FetchFailed \<Rightarrow>
          \<lparr>viz_data = None, viz_container = c,
           viz_console = [ConsoleError ''Error loading data from data/kalman-data.json:'']\<rparr>
      | FetchJson None \<Rightarrow> \<lparr>viz_data = None, viz_container = c, viz_console = []\<rparr>
      | FetchJson (Some dat) \<Rightarrow>
          \<lparr>viz_data = Some dat, viz_container = KalmanViz_render d3 dat, viz_console = []\<rparr>)" for c
    by (simp add: KalmanViz_init_def loadData_def new_viz_def Let_def
        split: fetch_result.splits option.splits)
  have M: "MarkovViz_init d3 r' (new_viz c) =
     (case r' of
        FetchFailed \<Rightarrow>
          \<lparr>viz_data = None, viz_container = c,
           viz_console = [ConsoleError ''Error loading data from data/markov-data.json:'']\<rparr>
      | FetchJson None \<Rightarrow> \<lparr>viz_data = None, viz_container = c, viz_console = []\<rparr>
      | FetchJson (Some dat) \<Rightarrow>
          \<lparr>viz_data = Some dat, viz_container = MarkovViz_render d3 dat, viz_console = []\<rparr>)" for c
    by (simp add: MarkovViz_init_def loadData_def new_viz_def Let_def
        split: fetch_result.splits option.splits)
  have K': "(viz_container (KalmanViz_init d3 r (new_viz [])) \<noteq> []) = (fetch_returned r \<noteq> None)"
    unfolding K by (simp add: fetch_returned_def KalmanViz_render_nonempty
        split: fetch_result.splits option.splits)
  have M': "(viz_container (MarkovViz_init d3 r' (new_viz [])) \<noteq> []) = (fetch_returned r' \<noteq> None)"
    unfolding M by (simp add: fetch_returned_def MarkovViz_render_nonempty
        split: fetch_result.splits option.splits)
  from K[of c0] M[of c0'] K' M' show ?thesis by blast
qed

theorem chart_init_by_fetch_witness:
  "KalmanViz_init example_d3 FetchFailed (new_viz []) =
     \<lparr>viz_data = None, viz_container = [],
      viz_console = [ConsoleError ''Error loading data from data/kalman-data.json:'']\<rparr> \<and>
   viz_container (MarkovViz_init example_d3
      (FetchJson (Some \<lparr>transitionMatrix = [[0.7, 0.3], [0.4, 0.6]], states = [''Up'', ''Down''],
                        stateDistribution = []\<rparr>)) (new_viz [])) \<noteq> []"
  using chart_init_by_fetch[of example_d3 FetchFailed "[]"
      "FetchJson (Some \<lparr>transitionMatrix = [[0.7, 0.3], [0.4, 0.6]], states = [''Up'', ''Down''],
                        stateDistribution = []\<rparr>)" "[]"]
  by (simp add: fetch_returned_def MarkovViz_render_nonempty)

lemma distribution_bar_bars:
  assumes "barScale (Num (probability d)) = Num r"
  shows "list_all (\<lambda>e. nonneg_attr ''width'' e \<and> nonneg_attr ''height'' e \<and> nonneg_attr ''y'' e)
           (filter (\<lambda>e. tag e = ''rect'') (distribution_bar barScale h w n i d))"
  using assms by (simp add: distribution_bar_def Let_def nonneg_attr_def num_attr_def)

lemma list_all_filter_concat:
  assumes "\<And>x. x \<in> set xs \<Longrightarrow> list_all P (filter Q (f x))"
  shows "list_all P (filter Q (concat (map f xs)))"
  using assms by (induction xs) simp_all

text \<open>
  Claim C10. For every distribution, whatever its probabilities, every bar of the bar chart
  has a width, a height and a \<open>y\<close> that are numbers and are not negative, the bar scale of
  the library giving a number for a number.
\<close>

theorem markov_bars_nonnegative:
  assumes "numeric_scale (scaleLinear d3 (Num 0, Num 1) (Num 0, Num (max (viz_height * 0.35) 40)))"
  shows "list_all (\<lambda>e. nonneg_attr ''width'' e \<and> nonneg_attr ''height'' e \<and> nonneg_attr ''y'' e)
           (bars (barChartGroup d3 dat))"
proof -
  let ?P = "\<lambda>e. nonneg_attr ''width'' e \<and> nonneg_attr ''height'' e \<and> nonneg_attr ''y'' e"
  let ?h = "max (viz_height * 0.35) 40"
  let ?scale = "scaleLinear d3 (Num 0, Num 1) (Num 0, Num ?h)"
  let ?n = "length (stateDistribution dat)"
  let ?bar = "\<lambda>(i, d). distribution_bar ?scale ?h (viz_width / real ?n - 10) ?n i d"
  have each: "list_all ?P (filter (\<lambda>e. tag e = ''rect'') (?bar x))" for x
  proof (cases x)
    case (Pair i d)
    from assms obtain r where "?scale (Num (probability d)) = Num r"
      unfolding numeric_scale_def by blast
    then show ?thesis unfolding Pair prod.case by (rule distribution_bar_bars)
  qed
  have "list_all ?P (filter (\<lambda>e. tag e = ''rect'')
      (concat (map ?bar (enumerate 0 (stateDistribution dat)))))"
    by (rule list_all_filter_concat) (rule each)
  then show ?thesis
    by (simp add: bars_def barChartGroup_def Let_def)
qed

theorem markov_bars_nonnegative_witness:
  "numeric_scale (scaleLinear example_d3 (Num 0, Num 1) (Num 0, Num (max (viz_height * 0.35) 40))) \<and>
   list_all (\<lambda>e. nonneg_attr ''width'' e \<and> nonneg_attr ''height'' e \<and> nonneg_attr ''y'' e)
     (bars (barChartGroup example_d3
        \<lparr>transitionMatrix = [[0.7, 0.3], [0.4, 0.6]], states = [''Up'', ''Down''],
         stateDistribution = [\<lparr>state = ''Up'', probability = 2\<rparr>,
                              \<lparr>state = ''Down'', probability = - 1 / 2\<rparr>]\<rparr>)) \<and>
   map (\<lambda>e. (num_attr ''y'' e, num_attr ''height'' e))
     (bars (barChartGroup example_d3
        \<lparr>transitionMatrix = [[0.7, 0.3], [0.4, 0.6]], states = [''Up'', ''Down''],
         stateDistribution = [\<lparr>state = ''Up'', probability = 2\<rparr>,
                              \<lparr>state = ''Down'', probability = - 1 / 2\<rparr>]\<rparr>)) =
   [(Some (Num 0), Some (Num 112)), (Some (Num 56), Some (Num 0))]"
proof -
  have H: "numeric_scale (scaleLinear example_d3 (Num 0, Num 1) (Num 0, Num (max (viz_height * 0.35) 40)))"
    by (simp add: numeric_scale_def example_d3_def)
  have V: "map (\<lambda>e. (num_attr ''y'' e, num_attr ''height'' e))
     (bars (barChartGroup example_d3
        \<lparr>transitionMatrix = [[0.7, 0.3], [0.4, 0.6]], states = [''Up'', ''Down''],
         stateDistribution = [\<lparr>state = ''Up'', probability = 2\<rparr>,
                              \<lparr>state = ''Down'', probability = - 1 / 2\<rparr>]\<rparr>)) =
   [(Some (Num 0), Some (Num 112)), (Some (Num 56), Some (Num 0))]"
    by (simp add: bars_def barChartGroup_def distribution_bar_def example_d3_def enumerate_eq_zip
        Let_def num_attr_def viz_consts)
  from markov_bars_nonnegative[OF H] H V show ?thesis by blast
qed

end
